theory Spec2Isabelle
  imports Complex_Main "HOL-Library.Word"
begin

section \<open>Flat field correction of a Chunk Exposure\<close>

text \<open>
  A shallow embedding of \<^verbatim>\<open>flatFieldCorrectChunkExposure\<close>
  (\<^verbatim>\<open>src/flatFieldCorrectChunkExposure.cc\<close>). The function is one sequence of
  checks and image operations; every \<^verbatim>\<open>throw\<close> and every \<^verbatim>\<open>return\<close> of the
  source is an outcome of the model, and the two Exposures the function works on are passed
  along as an explicit state.
\<close>

subsection \<open>Floating-point values\<close>

text \<open>
  A \<^verbatim>\<open>double\<close> is a finite value, one of the two zeros (\<open>Fin 0\<close> is the positive
  one), an infinity or not a number. \<open>Fin r\<close> stands for the finite double of value \<open>r\<close>.
\<close>

datatype double = Fin real | NegZero | PInf | NInf | NaN

text \<open>
  The arithmetic of the machine is not interpreted. A pixel (\<^verbatim>\<open>ImageT\<close>, which is
  \<^verbatim>\<open>float\<close> or \<^verbatim>\<open>double\<close> in the instantiations the source names) or a
  \<^verbatim>\<open>double\<close> that the function computes is kept as the expression that computes it:
  a value that was given (\<open>Val\<close>), the conversion of a count
  (\<^verbatim>\<open>static_cast<double>(n)\<close>, \<open>OfCount\<close>), and the operations \<^verbatim>\<open>+\<close>,
  \<^verbatim>\<open>-\<close>, \<^verbatim>\<open>*\<close>, \<^verbatim>\<open>/\<close> and \<^verbatim>\<open>std::sqrt\<close>. Nothing is said about
  rounding, overflow or the sign of a zero result: what holds of the expressions holds
  whatever floating-point arithmetic evaluates them.
\<close>

datatype sample =
    Val double
  | OfCount nat
  | Add sample sample
  | Sub sample sample
  | Mul sample sample
  | Div sample sample
  | Sqrt sample

text \<open>
  The value of an expression where IEEE 754 arithmetic gives it without rounding, by four
  rules only: a count up to \<open>2 ^ 53\<close> converts exactly; \<open>x * 1.0\<close> and \<open>1.0 * x\<close>
  are \<open>x\<close>; \<open>x / 1.0\<close> is \<open>x\<close>; a zero divided by a zero is not a number.
  Everywhere else the value is left open (\<open>None\<close>).
\<close>

fun known_value :: "sample \<Rightarrow> double option" where
  "known_value (Val d) = Some d"
| "known_value (OfCount n) = (if n \<le> 2 ^ 53 then Some (Fin (real n)) else None)"
| "known_value (Mul a b) =
     (if known_value b = Some (Fin 1) then known_value a
      else if known_value a = Some (Fin 1) then known_value b
      else None)"
| "known_value (Div a b) =
     (if known_value b = Some (Fin 1) then known_value a
      else if known_value a \<in> {Some (Fin 0), Some NegZero}
            \<and> known_value b \<in> {Some (Fin 0), Some NegZero} then Some NaN
      else None)"
| "known_value (Add a b) = None"
| "known_value (Sub a b) = None"
| "known_value (Sqrt a) = None"

text \<open>
  A \<^verbatim>\<open>double\<close> used as a condition (\<^verbatim>\<open>if (flatFieldScale)\<close>) is true unless it is
  a zero.
\<close>

definition nonzero :: "double \<Rightarrow> bool" where
  "nonzero x = (x \<noteq> Fin 0 \<and> x \<noteq> NegZero)"

text \<open>
  A value read through a pixel accessor is \<open>None\<close> when the accessor points outside the
  image: C++ leaves such a read undefined, and so is every value computed from it.
\<close>

definition lift2 :: "(sample \<Rightarrow> sample \<Rightarrow> sample) \<Rightarrow> sample option \<Rightarrow> sample option \<Rightarrow> sample option" where
  "lift2 f a b = (case a of None \<Rightarrow> None | Some x \<Rightarrow> (case b of None \<Rightarrow> None | Some y \<Rightarrow> Some (f x y)))"

subsection \<open>Metadata, Policy, Exposure\<close>

text \<open>
  The value of a metadata entry is a \<^verbatim>\<open>boost::any\<close>; the source reads it with
  \<^verbatim>\<open>boost::any_cast\<close>, which throws when the stored type is another one. A C++
  \<^verbatim>\<open>int\<close> is a 32-bit word, and so is the \<^verbatim>\<open>unsigned int\<close> it is assigned to.
\<close>

datatype anyval = IntV "32 word" | DoubleV double | StringV string

text \<open>
  Modelled from the spec: \<^verbatim>\<open>lsst::daf::base::DataProperty\<close> (DataProperty.h) is not
  part of the source file. The metadata of an image is the list of its entries, a key and a
  typed value each. A value is looked up by unique key, and the lookup fails if the key is
  absent or duplicated: \<open>findUnique\<close> gives the one entry of that name, and the null
  pointer (\<open>None\<close>) when there is none or more than one. \<open>addProperty\<close> appends an
  entry.
\<close>

type_synonym DataProperty = "(string \<times> anyval) list"

definition findUnique :: "DataProperty \<Rightarrow> string \<Rightarrow> anyval option" where
  "findUnique md name =
     (case filter (\<lambda>entry. fst entry = name) md of
        [entry] \<Rightarrow> Some (snd entry)
      | _ \<Rightarrow> None)"

definition addProperty :: "DataProperty \<Rightarrow> string \<times> anyval \<Rightarrow> DataProperty" where
  "addProperty md entry = md @ [entry]"

text \<open>
  The exceptions of the source, under the names the source gives them, and the names of the
  specification:
  \<^item> \<open>Runtime\<close>: AlreadyProcessed;
  \<^item> \<open>LengthError\<close>: DimensionMismatch;
  \<^item> \<open>RangeError\<close>: RegionMismatch;
  \<^item> \<open>NotFound\<close>: MetadataNotFound;
  \<^item> \<open>DomainError\<close>: FilterMismatch;
  \<^item> \<open>BadAnyCast\<close>: what \<^verbatim>\<open>boost::any_cast\<close> throws;
  \<^item> \<open>ConfigNotFound\<close>: a failed Policy lookup.
  The source has no exception for a degenerate flat.
\<close>

datatype error = Runtime | LengthError | RangeError | NotFound | DomainError
  | BadAnyCast | ConfigNotFound

text \<open>
  The source has two kinds of \<^verbatim>\<open>return\<close> statement: of an \<^verbatim>\<open>unsigned int\<close>
  (lines 120, 129, 143, 152) and of a \<^verbatim>\<open>std::string\<close> (line 199).
\<close>

datatype retval = RUInt "32 word" | RString string

text \<open>
  How a piece of the function body ends: control goes on to the next statement with a value
  (\<open>Next\<close>), the function returns (\<open>Return\<close>), an exception leaves it (\<open>Throw\<close>), or
  the behaviour is undefined in C++ (\<open>Undefined\<close>): after a read outside an image or
  outside a string literal, or a call of \<^verbatim>\<open>isalpha\<close> outside its domain.
\<close>

datatype 'a flow = Next 'a | Return retval | Throw error | Undefined

text \<open>
  Modelled from the spec: \<^verbatim>\<open>lsst::afw::image::Exposure\<close> (Exposure.h) is not part of
  the source file. An Exposure has its numbers of columns and rows, the samples in row-major
  order, a mask plane and the metadata. Dimensions are natural numbers: they are taken to
  fit the \<^verbatim>\<open>int\<close> the source casts them to.
\<close>

record 'm exposure =
  getCols :: nat
  getRows :: nat
  img :: "sample list"
  msk :: "'m list"
  getMetadata :: DataProperty

definition wf_exposure :: "'m exposure \<Rightarrow> bool" where
  "wf_exposure e = (length (img e) = getRows e * getCols e)"

text \<open>
  Modelled from the spec: the arithmetic operators of an Exposure work on every sample,
  with a scalar (\<^verbatim>\<open>/=\<close>, \<^verbatim>\<open>*=\<close>) or element by element with another Exposure
  (\<^verbatim>\<open>/=\<close>).
\<close>

definition div_scalar :: "'m exposure \<Rightarrow> sample \<Rightarrow> 'm exposure" where
  "div_scalar e x = e\<lparr>img := map (\<lambda>p. Div p x) (img e)\<rparr>"

definition mul_scalar :: "'m exposure \<Rightarrow> sample \<Rightarrow> 'm exposure" where
  "mul_scalar e x = e\<lparr>img := map (\<lambda>p. Mul p x) (img e)\<rparr>"

definition div_exposure :: "'m exposure \<Rightarrow> 'm exposure \<Rightarrow> 'm exposure" where
  "div_exposure e f = e\<lparr>img := map2 Div (img e) (img f)\<rparr>"

text \<open>
  The function mutates its two arguments: the state is the pair of them. The local copies
  \<^verbatim>\<open>chunkMaskedImage\<close>, \<^verbatim>\<open>masterChunkMaskedImage\<close> and the metadata pointers
  share their data with the Exposures and are read from the state.
\<close>

record 'm state =
  chunkExposure :: "'m exposure"
  masterChunkExposure :: "'m exposure"

type_synonym ('m, 'a) stage = "'m state \<Rightarrow> 'a flow \<times> 'm state"

definition bnd :: "('m, 'a) stage \<Rightarrow> ('a \<Rightarrow> ('m, 'b) stage) \<Rightarrow> ('m, 'b) stage" where
  "bnd m f s =
     (case m s of
        (Next a, s') \<Rightarrow> f a s'
      | (Return v, s') \<Rightarrow> (Return v, s')
      | (Throw e, s') \<Rightarrow> (Throw e, s')
      | (Undefined, s') \<Rightarrow> (Undefined, s'))"

definition next_with :: "'a \<Rightarrow> ('m, 'a) stage" where
  "next_with a s = (Next a, s)"

definition return_with :: "retval \<Rightarrow> ('m, 'a) stage" where
  "return_with v s = (Return v, s)"

definition throw :: "error \<Rightarrow> ('m, 'a) stage" where
  "throw e s = (Throw e, s)"

definition undefined_behaviour :: "('m, 'a) stage" where
  "undefined_behaviour s = (Undefined, s)"

definition chunkMetadata_findUnique :: "string \<Rightarrow> ('m, anyval option) stage" where
  "chunkMetadata_findUnique name s = (Next (findUnique (getMetadata (chunkExposure s)) name), s)"

definition masterChunkMetadata_findUnique :: "string \<Rightarrow> ('m, anyval option) stage" where
  "masterChunkMetadata_findUnique name s =
     (Next (findUnique (getMetadata (masterChunkExposure s)) name), s)"

text \<open>
  \<^verbatim>\<open>boost::any_cast<const int>\<close> and \<^verbatim>\<open>boost::any_cast<const std::string>\<close> of the
  value of a metadata entry.
\<close>

definition any_cast_int :: "anyval \<Rightarrow> ('m, 32 word) stage" where
  "any_cast_int v = (case v of IntV i \<Rightarrow> next_with i | _ \<Rightarrow> throw BadAnyCast)"

definition any_cast_string :: "anyval \<Rightarrow> ('m, string) stage" where
  "any_cast_string v = (case v of StringV x \<Rightarrow> next_with x | _ \<Rightarrow> throw BadAnyCast)"

text \<open>
  Modelled from the spec: \<^verbatim>\<open>lsst::pex::policy::Policy\<close> (Policy.h) is not part of the
  source file. A Policy maps keys to typed values, one of which is a nested Policy; a lookup
  of a key that is absent or holds a value of another type fails (ConfigNotFound). The
  four lookups the source calls follow.
\<close>

datatype pvalue = PString string | PDouble double | PBool bool | PPolicy "(string \<times> pvalue) list"

type_synonym Policy = "(string \<times> pvalue) list"

definition getPolicy :: "Policy \<Rightarrow> string \<Rightarrow> ('m, Policy) stage" where
  "getPolicy p key = (case map_of p key of Some (PPolicy q) \<Rightarrow> next_with q | _ \<Rightarrow> throw ConfigNotFound)"

definition getString :: "Policy \<Rightarrow> string \<Rightarrow> ('m, string) stage" where
  "getString p key = (case map_of p key of Some (PString x) \<Rightarrow> next_with x | _ \<Rightarrow> throw ConfigNotFound)"

definition getDouble :: "Policy \<Rightarrow> string \<Rightarrow> ('m, double) stage" where
  "getDouble p key = (case map_of p key of Some (PDouble x) \<Rightarrow> next_with x | _ \<Rightarrow> throw ConfigNotFound)"

definition getBool :: "Policy \<Rightarrow> string \<Rightarrow> ('m, bool) stage" where
  "getBool p key = (case map_of p key of Some (PBool x) \<Rightarrow> next_with x | _ \<Rightarrow> throw ConfigNotFound)"

subsection \<open>Validation (lines 89 to 206)\<close>

text \<open>Lines 91 to 95: the sub-stage must not have run on this Chunk Exposure.\<close>

definition check_not_run :: "('m, unit) stage" where
  "check_not_run =
     bnd (chunkMetadata_findUnique ''ISR_FLATCOR'') (\<lambda>isrFlatField.
       if isrFlatField \<noteq> None then throw Runtime else next_with ())"

text \<open>Lines 100 to 108: both Exposures have the same size.\<close>

definition check_size :: "('m, unit) stage" where
  "check_size s =
     (let numCols = getCols (chunkExposure s);
          numRows = getRows (chunkExposure s);
          mnumCols = getCols (masterChunkExposure s);
          mnumRows = getRows (masterChunkExposure s)
      in if numCols \<noteq> mnumCols \<or> numRows \<noteq> mnumRows then throw LengthError s
         else next_with () s)"

text \<open>
  Lines 115 and 138: the conditions are assignments, \<^verbatim>\<open>chunkType = "amp"\<close> and
  \<^verbatim>\<open>chunkType = "ccd"\<close>, not comparisons. The value of an assignment is the value
  assigned, here a string literal that is not empty, and the condition holds whatever
  \<^verbatim>\<open>chunkType\<close> was configured. With \<^verbatim>\<open>chunkType\<close> configured as
  \<^verbatim>\<open>amp\<close> the first branch is taken under either reading, assignment or comparison.
\<close>

definition assigned :: "string \<Rightarrow> bool" where
  "assigned literal = (literal \<noteq> [])"

text \<open>
  Lines 115 to 163. In each branch the source returns the identifier right after reading it
  (lines 120, 129, 143, 152); the statements after the \<^verbatim>\<open>return\<close> are kept as the
  source has them.
\<close>

definition check_region :: "string \<Rightarrow> ('m, unit) stage" where
  "check_region chunkType =
     (if assigned ''amp'' then
        bnd (chunkMetadata_findUnique ''AMPID'') (\<lambda>ampidField.
        bnd (case ampidField of
               Some v \<Rightarrow> bnd (any_cast_int v) (\<lambda>ampid. return_with (RUInt ampid))
             | None \<Rightarrow> throw NotFound) (\<lambda>ampid :: 32 word.
        bnd (masterChunkMetadata_findUnique ''AMPID'') (\<lambda>mampidField.
        bnd (case mampidField of
               Some v \<Rightarrow> bnd (any_cast_int v) (\<lambda>mampid. return_with (RUInt mampid))
             | None \<Rightarrow> throw NotFound) (\<lambda>mampid :: 32 word.
        if ampid \<noteq> mampid then throw RangeError else next_with ()))))
      else if assigned ''ccd'' then
        bnd (chunkMetadata_findUnique ''CCDID'') (\<lambda>ccdidField.
        bnd (case ccdidField of
               Some v \<Rightarrow> bnd (any_cast_int v) (\<lambda>ccdid. return_with (RUInt ccdid))
             | None \<Rightarrow> throw NotFound) (\<lambda>ccdid :: 32 word.
        bnd (masterChunkMetadata_findUnique ''CCDID'') (\<lambda>mccdidField.
        bnd (case mccdidField of
               Some v \<Rightarrow> bnd (any_cast_int v) (\<lambda>mccdid. return_with (RUInt mccdid))
             | None \<Rightarrow> throw NotFound) (\<lambda>mccdid :: 32 word.
        if ccdid \<noteq> mccdid then throw RangeError else next_with ()))))
      else next_with ())"

text \<open>
  Lines 176, 177 and 189, 190. \<^verbatim>\<open>isalpha\<close> is defined for the values of an
  \<^verbatim>\<open>unsigned char\<close>, 0 to 255, and for \<^verbatim>\<open>EOF\<close>, which is \<open>-1\<close>; in the C locale
  it holds of the letters \<^verbatim>\<open>A\<close> to \<^verbatim>\<open>Z\<close> and \<^verbatim>\<open>a\<close> to \<^verbatim>\<open>z\<close>. Where it
  holds, the message is built by \<^verbatim>\<open>std::string(": Filter Name: %s", filter)\<close>, the
  first \<^verbatim>\<open>filter\<close> characters of a literal of 17 characters: with \<^verbatim>\<open>filter\<close> at
  least 65 this reads beyond the literal. Where it does not hold, nothing is done.
\<close>

definition isalpha :: "32 word \<Rightarrow> bool" where
  "isalpha c = ((65 \<le> c \<and> c \<le> 90) \<or> (97 \<le> c \<and> c \<le> 122))"

definition trace_filter_name :: "32 word \<Rightarrow> ('m, unit) stage" where
  "trace_filter_name c =
     (if c = - 1 then next_with ()
      else if 255 < c then undefined_behaviour
      else if isalpha c then undefined_behaviour
      else next_with ())"

text \<open>
  Lines 168 to 206. Lines 192 to 202 read the master's FILTER again, as an \<^verbatim>\<open>int\<close>
  and then as a \<^verbatim>\<open>std::string\<close>, and return the string.
\<close>

definition check_filter :: "('m, unit) stage" where
  "check_filter =
     bnd (chunkMetadata_findUnique ''FILTER'') (\<lambda>filterField.
     bnd (case filterField of
            Some v \<Rightarrow> any_cast_int v
          | None \<Rightarrow> throw NotFound) (\<lambda>filter :: 32 word.
     bnd (trace_filter_name filter) (\<lambda>_ :: unit.
     bnd (masterChunkMetadata_findUnique ''FILTER'') (\<lambda>mfilterField.
     bnd (case mfilterField of
            Some v \<Rightarrow> any_cast_int v
          | None \<Rightarrow> throw NotFound) (\<lambda>mfilter :: 32 word.
     bnd (trace_filter_name mfilter) (\<lambda>_ :: unit.
     bnd (case mfilterField of
            Some v \<Rightarrow>
              bnd (any_cast_int v) (\<lambda>mfilter :: 32 word.
              bnd (any_cast_string v) (\<lambda>mfilter :: string.
              return_with (RString mfilter)))
          | None \<Rightarrow> throw NotFound) (\<lambda>_ :: unit.
     if filter \<noteq> mfilter then throw DomainError else next_with ())))))))"

subsection \<open>Normalization (lines 209 to 262)\<close>

text \<open>
  A \<^verbatim>\<open>MaskedPixelAccessor\<close> is a position in the image, a row and a column, that
  \<^verbatim>\<open>nextRow\<close> and \<^verbatim>\<open>nextCol\<close> advance. Reading through it gives the sample
  at that position of the row-major image, and \<open>None\<close> outside the image.
\<close>

type_synonym accessor = "nat \<times> nat"

definition origin :: accessor where
  "origin = (0, 0)"

fun nextRow :: "accessor \<Rightarrow> accessor" where
  "nextRow (r, c) = (r + 1, c)"

fun nextCol :: "accessor \<Rightarrow> accessor" where
  "nextCol (r, c) = (r, c + 1)"

fun deref :: "'m exposure \<Rightarrow> accessor \<Rightarrow> sample option" where
  "deref m (r, c) =
     (if r < getRows m \<and> c < getCols m \<and> r * getCols m + c < length (img m)
      then Some (img m ! (r * getCols m + c)) else None)"

text \<open>
  The two loop nests (lines 237 to 243 and 249 to 255) have the same headers:
  \<^verbatim>\<open>for (int chunkCol = 0; chunkCol < mnumCols; chunkCol++, masterChunkColAcc.nextCol())\<close>
  inside
  \<^verbatim>\<open>for (int chunkRow = 0; chunkRow < mnumRows; chunkRow++, masterChunkRowAcc.nextRow())\<close>,
  the column accessor starting as a copy of the row accessor. \<open>for_cols\<close> and \<open>for_rows\<close>
  are these headers; the body gets the column accessor and the variables it updates. The row
  loop gives back the row accessor it ends with, since the accessor is declared before the
  first loop (line 233) and lives on after it.
\<close>

function for_cols :: "(accessor \<Rightarrow> 'a \<Rightarrow> 'a) \<Rightarrow> nat \<Rightarrow> nat \<Rightarrow> accessor \<Rightarrow> 'a \<Rightarrow> 'a" where
  "for_cols body mnumCols chunkCol masterChunkColAcc vars =
     (if chunkCol < mnumCols
      then for_cols body mnumCols (chunkCol + 1) (nextCol masterChunkColAcc)
             (body masterChunkColAcc vars)
      else vars)"
  by pat_completeness auto
termination
  by (relation "measure (\<lambda>(body, mnumCols, chunkCol, acc, vars). mnumCols - chunkCol)") auto

function for_rows :: "(accessor \<Rightarrow> 'a \<Rightarrow> 'a) \<Rightarrow> nat \<Rightarrow> nat \<Rightarrow> nat \<Rightarrow> accessor \<Rightarrow> 'a \<Rightarrow> accessor \<times> 'a" where
  "for_rows body mnumRows mnumCols chunkRow masterChunkRowAcc vars =
     (if chunkRow < mnumRows
      then for_rows body mnumRows mnumCols (chunkRow + 1) (nextRow masterChunkRowAcc)
             (for_cols body mnumCols 0 masterChunkRowAcc vars)
      else (masterChunkRowAcc, vars))"
  by pat_completeness auto
termination
  by (relation "measure (\<lambda>(body, mnumRows, mnumCols, chunkRow, acc, vars). mnumRows - chunkRow)") auto

text \<open>Lines 240 and 241: the body of the first loop nest, on \<open>(n, sum)\<close>.\<close>

definition mean_body :: "'m exposure \<Rightarrow> accessor \<Rightarrow> nat \<times> sample option \<Rightarrow> nat \<times> sample option" where
  "mean_body m masterChunkColAcc = (\<lambda>(n, sum). (n + 1, lift2 Add sum (deref m masterChunkColAcc)))"

text \<open>Lines 252 and 253: the body of the second loop nest, on \<open>sumSq\<close>.\<close>

definition sq_body :: "'m exposure \<Rightarrow> sample option \<Rightarrow> accessor \<Rightarrow> sample option \<Rightarrow> sample option" where
  "sq_body m mu masterChunkColAcc sumSq =
     (let val = lift2 Sub (deref m masterChunkColAcc) mu
      in lift2 Add sumSq (lift2 Mul val val))"

text \<open>Lines 237 to 243 and 249 to 255: the two passes, from a given row accessor.\<close>

definition mean_pass :: "'m exposure \<Rightarrow> accessor \<Rightarrow> accessor \<times> nat \<times> sample option" where
  "mean_pass m masterChunkRowAcc =
     for_rows (mean_body m) (getRows m) (getCols m) 0 masterChunkRowAcc (0, Some (Val (Fin 0)))"

definition sq_pass :: "'m exposure \<Rightarrow> sample option \<Rightarrow> accessor \<Rightarrow> accessor \<times> sample option" where
  "sq_pass m mu masterChunkRowAcc =
     for_rows (sq_body m mu) (getRows m) (getCols m) 0 masterChunkRowAcc (Some (Val (Fin 0)))"

text \<open>
  Lines 230 to 258: the number of elements, the mean and the standard deviation. The
  accessor \<open>masterChunkRowAcc\<close> that the second pass starts from is the one the first
  left behind.
\<close>

definition flat_statistics :: "'m exposure \<Rightarrow> nat \<times> sample option \<times> sample option" where
  "flat_statistics m =
     (let masterChunkRowAcc = origin;
          (masterChunkRowAcc, n, sum) = mean_pass m masterChunkRowAcc;
          mu = lift2 Div sum (Some (OfCount n));
          (masterChunkRowAcc, sumSq) = sq_pass m mu masterChunkRowAcc;
          sigma = map_option Sqrt (lift2 Div sumSq (Some (OfCount n)))
      in (n, mu, sigma))"

text \<open>
  Lines 230 to 261: the normalization itself, \<^verbatim>\<open>masterChunkExposure /= mu\<close>.
  \<open>sigma\<close> is computed and not used, and there is no test on \<open>mu\<close>. A pass that has
  read outside the image leaves its result undefined (\<open>None\<close>), and the behaviour of the
  function with it: line 261 is reached in a defined way only if both passes stayed inside
  the image.
\<close>

definition normalize_flat :: "('m, unit) stage" where
  "normalize_flat s =
     (let (n, mu, sigma) = flat_statistics (masterChunkExposure s)
      in case mu of
           None \<Rightarrow> (Undefined, s)
         | Some mu \<Rightarrow>
             (case sigma of
                None \<Rightarrow> (Undefined, s)
              | Some sigma \<Rightarrow>
                  (Next (), s\<lparr>masterChunkExposure := div_scalar (masterChunkExposure s) mu\<rparr>)))"

text \<open>
  Lines 216 to 262. Line 216 reads \<^verbatim>\<open>normalizeKey\<close> with \<^verbatim>\<open>getDouble\<close> and keeps
  it in a \<^verbatim>\<open>std::string\<close>; how the number becomes a string is not said by the source,
  and is the parameter \<open>string_of_double\<close>. Line 217 looks the key up in
  \<^verbatim>\<open>chunkMetadata\<close>.
\<close>

definition normalize :: "(double \<Rightarrow> string) \<Rightarrow> Policy \<Rightarrow> ('m, unit) stage" where
  "normalize string_of_double datasetPolicy =
     bnd (getDouble datasetPolicy ''normalizeKey'') (\<lambda>d.
     bnd (next_with (string_of_double d)) (\<lambda>normalizeKey.
     bnd (chunkMetadata_findUnique normalizeKey) (\<lambda>isrNormalize.
     if isrNormalize \<noteq> None then next_with ()
     else normalize_flat)))"

text \<open>
  The accessors that a loop nest hands to its body, in order: each body dereferences the
  accessor it gets, once.
\<close>

definition pass_reads :: "nat \<Rightarrow> nat \<Rightarrow> accessor \<Rightarrow> accessor list" where
  "pass_reads mnumRows mnumCols masterChunkRowAcc =
     snd (for_rows (\<lambda>a reads. reads @ [a]) mnumRows mnumCols 0 masterChunkRowAcc [])"

definition first_reads :: "'m exposure \<Rightarrow> accessor list" where
  "first_reads m = pass_reads (getRows m) (getCols m) origin"

definition second_reads :: "'m exposure \<Rightarrow> accessor list" where
  "second_reads m = pass_reads (getRows m) (getCols m) (fst (mean_pass m origin))"

text \<open>
  The statistics as the specification words them: the arithmetic mean of all sample values,
  a sum and a count over every pixel, and the square root of the mean of the squared
  deviations from it.
\<close>

definition spec_mean :: "sample list \<Rightarrow> sample" where
  "spec_mean xs = Div (fold (\<lambda>x s. Add s x) xs (Val (Fin 0))) (OfCount (length xs))"

definition spec_sigma :: "sample list \<Rightarrow> sample" where
  "spec_sigma xs =
     Sqrt (Div (fold (\<lambda>x s. Add s (Mul (Sub x (spec_mean xs)) (Sub x (spec_mean xs)))) xs
                       (Val (Fin 0)))
               (OfCount (length xs)))"

text \<open>The positions of \<open>R\<close> rows of \<open>C\<close> columns from row \<open>r0\<close> on, row by row.\<close>

definition positions :: "nat \<Rightarrow> nat \<Rightarrow> nat \<Rightarrow> accessor list" where
  "positions r0 R C = concat (map (\<lambda>i. map (\<lambda>j. (r0 + i, j)) [0..<C]) [0..<R])"

subsection \<open>Correction and provenance (lines 265 to 294)\<close>

definition masterChunkExposure_mul :: "double \<Rightarrow> ('m, unit) stage" where
  "masterChunkExposure_mul x s =
     (Next (), s\<lparr>masterChunkExposure := mul_scalar (masterChunkExposure s) (Val x)\<rparr>)"

definition chunkExposure_div_master :: "('m, unit) stage" where
  "chunkExposure_div_master s =
     (Next (), s\<lparr>chunkExposure := div_exposure (chunkExposure s) (masterChunkExposure s)\<rparr>)"

text \<open>Lines 266 to 282.\<close>

definition correct :: "Policy \<Rightarrow> ('m, unit) stage" where
  "correct flatPolicy =
     bnd (getDouble flatPolicy ''flatFieldScale'') (\<lambda>flatFieldScale.
     bnd (getDouble flatPolicy ''stretchFactor'') (\<lambda>stretchFactor.
     bnd (masterChunkExposure_mul stretchFactor) (\<lambda>_.
     bnd (getBool flatPolicy ''sigClip'') (\<lambda>sigClip.
     bnd (getDouble flatPolicy ''sigClipVal'') (\<lambda>sigClipVal.
     if nonzero flatFieldScale
     then bnd (masterChunkExposure_mul flatFieldScale) (\<lambda>_. chunkExposure_div_master)
     else chunkExposure_div_master)))))"

text \<open>Lines 285 and 286.\<close>

definition record_provenance :: "('m, unit) stage" where
  "record_provenance s =
     (Next (), s\<lparr>chunkExposure := (chunkExposure s)
        \<lparr>getMetadata := addProperty (getMetadata (chunkExposure s))
           (''ISR_FLATCOR'', StringV ''Complete'')\<rparr>\<rparr>)"

text \<open>Lines 209 to 294: what follows the validation.\<close>

definition apply_flat :: "(double \<Rightarrow> string) \<Rightarrow> Policy \<Rightarrow> Policy \<Rightarrow> ('m, unit) stage" where
  "apply_flat string_of_double datasetPolicy flatPolicy =
     bnd (normalize string_of_double datasetPolicy) (\<lambda>_.
     bnd (correct flatPolicy) (\<lambda>_.
     record_provenance))"

subsection \<open>The function\<close>

definition flatFieldCorrectChunkExposure ::
  "(double \<Rightarrow> string) \<Rightarrow> 'm exposure \<Rightarrow> 'm exposure \<Rightarrow> Policy \<Rightarrow> Policy \<Rightarrow> unit flow \<times> 'm state" where
  "flatFieldCorrectChunkExposure string_of_double chunk master isrPolicy datasetPolicy =
     (bnd check_not_run (\<lambda>_.
      bnd check_size (\<lambda>_.
      bnd (getPolicy isrPolicy ''flatPolicy'') (\<lambda>flatPolicy.
      bnd (getString flatPolicy ''chunkType'') (\<lambda>chunkType.
      bnd (check_region chunkType) (\<lambda>_.
      bnd check_filter (\<lambda>_.
      apply_flat string_of_double datasetPolicy flatPolicy)))))))
     \<lparr>chunkExposure = chunk, masterChunkExposure = master\<rparr>"

subsection \<open>Example inputs\<close>

text \<open>
  The end-to-end example of the specification: a science image of four by four samples, 1000.0
  everywhere, a master flat of 2.0 everywhere, AMPID 1 and FILTER 2 on both, \<open>stretchFactor\<close>
  1.0 and \<open>flatFieldScale\<close> 0. Then the same with two by two samples, and variants.
\<close>

definition ex_flatPolicy :: Policy where
  "ex_flatPolicy =
     [(''chunkType'', PString ''amp''), (''flatFieldScale'', PDouble (Fin 0)),
      (''stretchFactor'', PDouble (Fin 1)), (''sigClip'', PBool False),
      (''sigClipVal'', PDouble (Fin 0))]"

definition ex_isrPolicy :: Policy where
  "ex_isrPolicy = [(''flatPolicy'', PPolicy ex_flatPolicy)]"

definition ex_datasetPolicy :: Policy where
  "ex_datasetPolicy = [(''normalizeKey'', PString ''IMRED_NF'')]"

definition ex_chunk4 :: "nat exposure" where
  "ex_chunk4 = \<lparr>getCols = 4, getRows = 4, img = replicate 16 (Val (Fin 1000)),
     msk = replicate 16 0, getMetadata = [(''AMPID'', IntV 1), (''FILTER'', IntV 2)]\<rparr>"

definition ex_master4 :: "nat exposure" where
  "ex_master4 = \<lparr>getCols = 4, getRows = 4, img = replicate 16 (Val (Fin 2)),
     msk = replicate 16 0, getMetadata = [(''AMPID'', IntV 1), (''FILTER'', IntV 2)]\<rparr>"

definition ex_chunk :: "nat exposure" where
  "ex_chunk = \<lparr>getCols = 2, getRows = 2,
     img = [Val (Fin 1000), Val (Fin 1000), Val (Fin 1000), Val (Fin 1000)],
     msk = [0, 0, 0, 0], getMetadata = [(''AMPID'', IntV 1), (''FILTER'', IntV 2)]\<rparr>"

definition ex_master :: "nat exposure" where
  "ex_master = \<lparr>getCols = 2, getRows = 2,
     img = [Val (Fin 2), Val (Fin 2), Val (Fin 2), Val (Fin 2)],
     msk = [0, 0, 0, 0], getMetadata = [(''AMPID'', IntV 1), (''FILTER'', IntV 2)]\<rparr>"

definition ex_done :: "nat exposure" where
  "ex_done = ex_chunk\<lparr>getMetadata := [(''ISR_FLATCOR'', StringV ''Complete'')]\<rparr>"

definition ex_wide :: "nat exposure" where
  "ex_wide = \<lparr>getCols = 3, getRows = 2, img = replicate 6 (Val (Fin 2)),
     msk = replicate 6 0, getMetadata = [(''AMPID'', IntV 1), (''FILTER'', IntV 2)]\<rparr>"

definition ex_master_amp2 :: "nat exposure" where
  "ex_master_amp2 = ex_master\<lparr>getMetadata := [(''AMPID'', IntV 2), (''FILTER'', IntV 2)]\<rparr>"

definition ex_master_filter3 :: "nat exposure" where
  "ex_master_filter3 = ex_master\<lparr>getMetadata := [(''AMPID'', IntV 1), (''FILTER'', IntV 3)]\<rparr>"

definition ex_master_normalized :: "nat exposure" where
  "ex_master_normalized = ex_master\<lparr>getMetadata :=
     [(''AMPID'', IntV 1), (''FILTER'', IntV 2), (''IMRED_NF'', StringV ''Complete'')]\<rparr>"

definition ex_chunk_normalized :: "nat exposure" where
  "ex_chunk_normalized = ex_chunk\<lparr>getMetadata :=
     [(''AMPID'', IntV 1), (''FILTER'', IntV 2), (''IMRED_NF'', StringV ''Complete'')]\<rparr>"

definition ex_datasetPolicy_double :: Policy where
  "ex_datasetPolicy_double = [(''normalizeKey'', PDouble (Fin 1))]"

definition ex_key_of_double :: "double \<Rightarrow> string" where
  "ex_key_of_double d = ''IMRED_NF''"

definition ex_flat_unit :: "nat exposure" where
  "ex_flat_unit = ex_master\<lparr>img := [Val (Fin 1), Val (Fin 1), Val (Fin 1), Val (Fin 1)]\<rparr>"

definition ex_empty :: "nat exposure" where
  "ex_empty = \<lparr>getCols = 0, getRows = 0, img = [], msk = [], getMetadata = []\<rparr>"

definition ex_done_twice :: "nat exposure" where
  "ex_done_twice = ex_chunk\<lparr>getMetadata :=
     [(''AMPID'', IntV 1), (''FILTER'', IntV 2),
      (''ISR_FLATCOR'', StringV ''Complete''), (''ISR_FLATCOR'', StringV ''Complete'')]\<rparr>"

definition ex_flatPolicy_no_sigClip :: Policy where
  "ex_flatPolicy_no_sigClip =
     [(''chunkType'', PString ''amp''), (''flatFieldScale'', PDouble (Fin 0)),
      (''stretchFactor'', PDouble (Fin 1))]"

section \<open>Auxiliary facts\<close>

subsection \<open>The loops\<close>

lemma for_cols_fold:
  "for_cols body C k (r, c) v = fold body (map (\<lambda>j. (r, c + j)) [0..<C - k]) v"
proof (induction "C - k" arbitrary: k c v)
  case 0
  then show ?case by (simp add: for_cols.simps)
next
  case (Suc n)
  then have lt: "k < C" and n: "n = C - (k + 1)" by arith+
  have "[0..<C - k] = 0 # map Suc [0..<n]"
    using Suc.hyps(2) by (metis map_Suc_upt upt_conv_Cons zero_less_Suc)
  then show ?case
    using lt Suc.hyps(1) [OF n, of "c + 1" "body (r, c) v"]
    by (subst for_cols.simps) (simp add: n comp_def)
qed

lemma for_rows_fold:
  "for_rows body R C k (r, c) v =
     ((r + (R - k), c), fold (\<lambda>i. for_cols body C 0 (r + i, c)) [0..<R - k] v)"
proof (induction "R - k" arbitrary: k r v)
  case 0
  then show ?case by (simp add: for_rows.simps)
next
  case (Suc n)
  then have lt: "k < R" and n: "n = R - (k + 1)" by arith+
  have "[0..<R - k] = 0 # map Suc [0..<n]"
    using Suc.hyps(2) by (metis map_Suc_upt upt_conv_Cons zero_less_Suc)
  then show ?case
    using lt Suc.hyps(1) [OF n, of "r + 1" "for_cols body C 0 (r, c) v"]
    by (subst for_rows.simps) (simp add: n comp_def fold_map)
qed

lemma fold_concat_lists: "fold f (concat xss) v = fold (fold f) xss v"
  by (induction xss arbitrary: v) simp_all

lemma for_rows_positions:
  "for_rows body R C 0 (r0, 0) v = ((r0 + R, 0), fold body (positions r0 R C) v)"
proof -
  have eq: "for_cols body C 0 (r0 + i, 0) = fold body (map (\<lambda>j. (r0 + i, j)) [0..<C])" for i
    by (rule ext) (simp only: for_cols_fold add_0 diff_zero)
  have "fold body (positions r0 R C) v
        = fold (fold body) (map (\<lambda>i. map (\<lambda>j. (r0 + i, j)) [0..<C]) [0..<R]) v"
    by (simp only: positions_def fold_concat_lists)
  also have "\<dots> = fold (\<lambda>i. for_cols body C 0 (r0 + i, 0)) [0..<R] v"
    by (simp only: fold_map comp_def eq)
  finally show ?thesis
    by (simp only: for_rows_fold diff_zero)
qed

lemma positions_0: "positions r0 0 C = []"
  by (simp add: positions_def)

lemma positions_Suc:
  "positions r0 (Suc R) C = positions r0 R C @ map (\<lambda>j. (r0 + R, j)) [0..<C]"
  by (simp add: positions_def)

lemma set_positions:
  "set (positions r0 R C) = {(r, c). r0 \<le> r \<and> r < r0 + R \<and> c < C}"
proof (induction R)
  case 0
  show ?case by (simp add: positions_0)
next
  case (Suc R)
  have "set (map (\<lambda>j. (r0 + R, j)) [0..<C]) = {(r, c). r = r0 + R \<and> c < C}"
    by auto
  with Suc show ?case
    by (auto simp add: positions_Suc)
qed

lemma length_positions: "length (positions r0 R C) = R * C"
  by (induction R) (simp_all add: positions_0 positions_Suc)

lemma index_positions:
  "map (\<lambda>(r, c). r * C + c) (positions 0 R C) = [0..<R * C]"
proof (induction R)
  case 0
  show ?case by (simp add: positions_0)
next
  case (Suc R)
  have "map (\<lambda>(r, c). r * C + c) (map (\<lambda>j. (R, j)) [0..<C]) = map (\<lambda>j. j + R * C) [0..<C]"
    by (simp add: add.commute)
  also have "\<dots> = [R * C..<C + R * C]"
    by (rule map_add_upt)
  finally have row: "map (\<lambda>(r, c). r * C + c) (map (\<lambda>j. (R, j)) [0..<C]) = [R * C..<R * C + C]"
    by (simp only: add.commute)
  have split: "[0..<R * C + C] = [0..<R * C] @ [R * C..<R * C + C]"
    by (rule upt_add_eq_append) simp
  have "map (\<lambda>(r, c). r * C + c) (positions 0 (Suc R) C)
        = map (\<lambda>(r, c). r * C + c) (positions 0 R C)
          @ map (\<lambda>(r, c). r * C + c) (map (\<lambda>j. (R, j)) [0..<C])"
    by (simp only: positions_Suc map_append add_0)
  also have "\<dots> = [0..<R * C + C]"
    by (simp only: Suc row split)
  finally show ?case by (simp add: add.commute)
qed

lemma deref_positions:
  assumes "wf_exposure m"
  shows "map (deref m) (positions 0 (getRows m) (getCols m)) = map Some (img m)"
proof -
  let ?R = "getRows m" and ?C = "getCols m"
  have in_range: "r * ?C + c < length (img m)" if "r < ?R" "c < ?C" for r c
  proof -
    have "r * ?C + c < Suc r * ?C" using that by simp
    also have "\<dots> \<le> ?R * ?C" using that by (intro mult_le_mono1) simp
    finally show ?thesis using assms by (simp add: wf_exposure_def)
  qed
  have "map (deref m) (positions 0 ?R ?C)
        = map (\<lambda>a. Some (img m ! (case a of (r, c) \<Rightarrow> r * ?C + c))) (positions 0 ?R ?C)"
  proof (rule map_cong [OF refl])
    fix a assume "a \<in> set (positions 0 ?R ?C)"
    then obtain r c where "a = (r, c)" "r < ?R" "c < ?C"
      by (auto simp: set_positions)
    then show "deref m a = Some (img m ! (case a of (r, c) \<Rightarrow> r * ?C + c))"
      using in_range [of r c] by simp
  qed
  also have "\<dots> = map (\<lambda>i. Some (img m ! i)) (map (\<lambda>(r, c). r * ?C + c) (positions 0 ?R ?C))"
    by (simp add: comp_def)
  also have "\<dots> = map Some (map (\<lambda>i. img m ! i) [0..<length (img m)])"
    using assms by (simp add: index_positions wf_exposure_def comp_def)
  finally show ?thesis by (simp add: map_nth)
qed

lemma deref_outside:
  "getRows m \<le> r \<Longrightarrow> deref m (r, c) = None"
  by simp


lemma lift2_None_left: "lift2 f None b = None"
  by (simp add: lift2_def)

lemma lift2_None_right: "lift2 f a None = None"
  by (simp add: lift2_def split: option.splits)

lemma lift2_Some: "lift2 f (Some x) (Some y) = Some (f x y)"
  by (simp add: lift2_def)

lemmas lift2_simps = lift2_None_left lift2_None_right lift2_Some

lemma fold_mean_body:
  "map (deref m) ps = map Some xs \<Longrightarrow>
   fold (mean_body m) ps (n, Some s) = (n + length ps, Some (fold (\<lambda>x s. Add s x) xs s))"
proof (induction ps arbitrary: n s xs)
  case Nil
  then show ?case by simp
next
  case (Cons a ps)
  then obtain x xs' where xs: "xs = x # xs'" and a: "deref m a = Some x"
    and rest: "map (deref m) ps = map Some xs'"
    by (cases xs) auto
  show ?case
    using Cons.IH [OF rest, of "n + 1" "Add s x"]
    by (simp add: xs a mean_body_def lift2_simps)
qed

lemma mean_pass_end: "fst (mean_pass m origin) = (getRows m, 0)"
  by (simp only: mean_pass_def origin_def for_rows_positions fst_conv add_0)

lemma mean_pass_wf:
  assumes "wf_exposure m"
  shows "snd (mean_pass m origin)
           = (length (img m), Some (fold (\<lambda>x s. Add s x) (img m) (Val (Fin 0))))"
proof -
  have "snd (mean_pass m origin)
        = fold (mean_body m) (positions 0 (getRows m) (getCols m)) (0, Some (Val (Fin 0)))"
    by (simp only: mean_pass_def origin_def for_rows_positions snd_conv)
  also have "\<dots> = (0 + length (positions 0 (getRows m) (getCols m)),
                     Some (fold (\<lambda>x s. Add s x) (img m) (Val (Fin 0))))"
    by (rule fold_mean_body) (rule deref_positions [OF assms])
  finally show ?thesis
    using assms by (simp add: length_positions wf_exposure_def)
qed

lemma fold_sq_body_None: "fold (sq_body m mu) ps None = None"
  by (induction ps) (simp_all add: sq_body_def lift2_simps Let_def)

lemma fold_sq_body_outside:
  assumes "ps \<noteq> []" and "deref m (hd ps) = None"
  shows "fold (sq_body m mu) ps v = None"
proof -
  from assms(1) obtain a qs where ps: "ps = a # qs" by (cases ps) auto
  with assms(2) have "sq_body m mu a v = None"
    by (simp add: sq_body_def lift2_simps Let_def)
  then show ?thesis by (simp add: ps fold_sq_body_None)
qed

lemma positions_nonempty:
  assumes "0 < R" and "0 < C"
  shows "positions r0 R C \<noteq> []"
proof -
  from assms have "0 < length (positions r0 R C)" by (simp add: length_positions)
  then show ?thesis by auto
qed

lemma sq_pass_outside:
  assumes "0 < getRows m" and "0 < getCols m"
  shows "snd (sq_pass m mu (getRows m, 0)) = None"
proof -
  let ?ps = "positions (getRows m) (getRows m) (getCols m)"
  have ne: "?ps \<noteq> []" using assms by (rule positions_nonempty)
  have outside: "deref m a = None" if "a \<in> set ?ps" for a
  proof -
    obtain r c where a: "a = (r, c)" by (cases a)
    with that have "getRows m \<le> r" by (simp add: set_positions)
    then show ?thesis by (simp add: a)
  qed
  have "hd ?ps \<in> set ?ps" using ne by (rule hd_in_set)
  then have "deref m (hd ?ps) = None" by (rule outside)
  with ne have "fold (sq_body m mu) ?ps (Some (Val (Fin 0))) = None"
    by (rule fold_sq_body_outside)
  then show ?thesis
    by (simp only: sq_pass_def for_rows_positions snd_conv)
qed

lemma flat_statistics_unfold:
  "flat_statistics m =
     (fst (snd (mean_pass m origin)),
      lift2 Div (snd (snd (mean_pass m origin))) (Some (OfCount (fst (snd (mean_pass m origin))))),
      map_option Sqrt
        (lift2 Div
           (snd (sq_pass m (lift2 Div (snd (snd (mean_pass m origin)))
                              (Some (OfCount (fst (snd (mean_pass m origin))))))
                   (fst (mean_pass m origin))))
           (Some (OfCount (fst (snd (mean_pass m origin)))))))"
  by (simp add: flat_statistics_def Let_def split_beta)

lemma flat_statistics_wf:
  assumes "wf_exposure m"
  shows "fst (flat_statistics m) = length (img m)"
    and "fst (snd (flat_statistics m)) = Some (spec_mean (img m))"
  by (simp_all add: flat_statistics_unfold mean_pass_wf [OF assms] lift2_simps spec_mean_def)

lemma flat_statistics_sigma:
  assumes "0 < getRows m" and "0 < getCols m"
  shows "snd (snd (flat_statistics m)) = None"
  by (simp add: flat_statistics_unfold mean_pass_end sq_pass_outside [OF assms] lift2_simps)

lemma positions_no_pixel:
  assumes "R = 0 \<or> C = 0"
  shows "positions r0 R C = []"
proof -
  have "length (positions r0 R C) = 0"
    using assms by (auto simp: length_positions)
  then show ?thesis by simp
qed

lemma flat_statistics_no_pixel:
  assumes "getRows m = 0 \<or> getCols m = 0"
  shows "flat_statistics m =
     (0, Some (Div (Val (Fin 0)) (OfCount 0)),
      Some (Sqrt (Div (Val (Fin 0)) (OfCount 0))))"
proof -
  have p: "positions r0 (getRows m) (getCols m) = []" for r0
    using assms by (rule positions_no_pixel)
  have m: "mean_pass m origin = ((getRows m, 0), 0, Some (Val (Fin 0)))"
    by (simp only: mean_pass_def origin_def for_rows_positions p fold_simps id_apply add_0)
  have q: "snd (sq_pass m mu (getRows m, 0)) = Some (Val (Fin 0))" for mu
    by (simp only: sq_pass_def for_rows_positions p snd_conv fold_simps id_apply)
  show ?thesis
    by (simp add: flat_statistics_unfold m q lift2_simps)
qed

lemma normalize_flat_cases:
  "normalize_flat s =
     (case flat_statistics (masterChunkExposure s) of
        (n, Some mu, Some sigma) \<Rightarrow>
          (Next (), s\<lparr>masterChunkExposure := div_scalar (masterChunkExposure s) mu\<rparr>)
      | _ \<Rightarrow> (Undefined, s))"
  by (simp add: normalize_flat_def split: prod.splits option.splits)

lemma normalize_flat_outside:
  assumes "0 < getRows (masterChunkExposure s)" and "0 < getCols (masterChunkExposure s)"
  shows "normalize_flat s = (Undefined, s)"
proof -
  obtain n mu sigma where st: "flat_statistics (masterChunkExposure s) = (n, mu, sigma)"
    by (cases "flat_statistics (masterChunkExposure s)") auto
  with flat_statistics_sigma [OF assms] have "sigma = None" by simp
  with st show ?thesis by (simp add: normalize_flat_cases split: option.splits)
qed


subsection \<open>The checks\<close>

lemma check_region_outcome:
  "check_region chunkType s =
     (case findUnique (getMetadata (chunkExposure s)) ''AMPID'' of
        None \<Rightarrow> (Throw NotFound, s)
      | Some (IntV i) \<Rightarrow> (Return (RUInt i), s)
      | Some _ \<Rightarrow> (Throw BadAnyCast, s))"
  by (simp add: check_region_def assigned_def bnd_def chunkMetadata_findUnique_def
      any_cast_int_def throw_def next_with_def return_with_def
      split: option.splits anyval.splits)

lemma trace_filter_name_outcome:
  "trace_filter_name c s =
     (if c \<noteq> - 1 \<and> (255 < c \<or> isalpha c) then (Undefined, s) else (Next (), s))"
  by (simp add: trace_filter_name_def undefined_behaviour_def next_with_def)

lemma check_filter_outcome:
  "check_filter s =
     (case findUnique (getMetadata (chunkExposure s)) ''FILTER'' of
        None \<Rightarrow> (Throw NotFound, s)
      | Some (IntV i) \<Rightarrow>
          (if i \<noteq> - 1 \<and> (255 < i \<or> isalpha i) then (Undefined, s)
           else case findUnique (getMetadata (masterChunkExposure s)) ''FILTER'' of
             None \<Rightarrow> (Throw NotFound, s)
           | Some (IntV j) \<Rightarrow>
               (if j \<noteq> - 1 \<and> (255 < j \<or> isalpha j) then (Undefined, s)
                else (Throw BadAnyCast, s))
           | Some _ \<Rightarrow> (Throw BadAnyCast, s))
      | Some _ \<Rightarrow> (Throw BadAnyCast, s))"
  by (simp add: check_filter_def bnd_def chunkMetadata_findUnique_def
      masterChunkMetadata_findUnique_def any_cast_int_def any_cast_string_def
      trace_filter_name_outcome throw_def next_with_def return_with_def
      split: option.splits anyval.splits)

lemma check_not_run_outcome:
  "check_not_run s =
     (if findUnique (getMetadata (chunkExposure s)) ''ISR_FLATCOR'' \<noteq> None
      then (Throw Runtime, s) else (Next (), s))"
  by (simp add: check_not_run_def bnd_def chunkMetadata_findUnique_def throw_def next_with_def)

lemma check_size_outcome:
  "check_size s =
     (if getCols (chunkExposure s) \<noteq> getCols (masterChunkExposure s)
         \<or> getRows (chunkExposure s) \<noteq> getRows (masterChunkExposure s)
      then (Throw LengthError, s) else (Next (), s))"
  by (simp add: check_size_def throw_def next_with_def)

lemma policy_lookup_state:
  "snd (getPolicy p key s) = s" "snd (getString p key s) = s"
  "snd (getDouble p key s) = s" "snd (getBool p key s) = s"
  by (simp_all add: getPolicy_def getString_def getDouble_def getBool_def throw_def next_with_def
      split: option.splits pvalue.splits)

lemma validation_stops:
  "fst (flatFieldCorrectChunkExposure string_of_double chunk master isrPolicy datasetPolicy) \<noteq> Next ()"
  "snd (flatFieldCorrectChunkExposure string_of_double chunk master isrPolicy datasetPolicy)
     = \<lparr>chunkExposure = chunk, masterChunkExposure = master\<rparr>"
  by (simp_all add: flatFieldCorrectChunkExposure_def bnd_def check_not_run_outcome
      check_size_outcome check_region_outcome getPolicy_def getString_def throw_def next_with_def
      split: option.splits pvalue.splits anyval.splits prod.splits flow.splits)

lemma mismatch_never_reported:
  "fst (flatFieldCorrectChunkExposure string_of_double chunk master isrPolicy datasetPolicy)
     \<noteq> Throw RangeError"
  "fst (flatFieldCorrectChunkExposure string_of_double chunk master isrPolicy datasetPolicy)
     \<noteq> Throw DomainError"
  by (simp_all add: flatFieldCorrectChunkExposure_def bnd_def check_not_run_outcome
      check_size_outcome check_region_outcome getPolicy_def getString_def throw_def next_with_def
      split: option.splits pvalue.splits anyval.splits prod.splits flow.splits)

lemma check_filter_never_compares:
  "fst (check_filter s) \<noteq> Throw DomainError" "fst (check_filter s) \<noteq> Next ()"
  by (simp_all add: check_filter_outcome split: option.splits anyval.splits)

lemma check_region_never_compares:
  "fst (check_region chunkType s) \<noteq> Throw RangeError" "fst (check_region chunkType s) \<noteq> Next ()"
  by (simp_all add: check_region_outcome split: option.splits anyval.splits)

lemma normalize_outcome:
  "normalize string_of_double datasetPolicy s =
     (case map_of datasetPolicy ''normalizeKey'' of
        Some (PDouble d) \<Rightarrow>
          (if findUnique (getMetadata (chunkExposure s)) (string_of_double d) \<noteq> None
           then (Next (), s) else normalize_flat s)
      | _ \<Rightarrow> (Throw ConfigNotFound, s))"
  by (simp add: normalize_def bnd_def getDouble_def chunkMetadata_findUnique_def throw_def next_with_def
      split: option.splits pvalue.splits)

lemma wf_ex_master: "wf_exposure ex_master"
  by (simp add: wf_exposure_def ex_master_def)

subsection \<open>Reads, correction, provenance\<close>

lemma fold_snoc: "fold (\<lambda>a reads. reads @ [a]) ps acc = acc @ ps"
  by (induction ps arbitrary: acc) simp_all

lemma pass_reads_positions: "pass_reads R C (r0, 0) = positions r0 R C"
  by (simp only: pass_reads_def for_rows_positions snd_conv fold_snoc append_Nil)

lemma first_reads_positions: "first_reads m = positions 0 (getRows m) (getCols m)"
  by (simp only: first_reads_def origin_def pass_reads_positions)

lemma second_reads_positions: "second_reads m = positions (getRows m) (getRows m) (getCols m)"
  by (simp only: second_reads_def mean_pass_end pass_reads_positions)

lemma normalize_chunk:
  "chunkExposure (snd (normalize string_of_double datasetPolicy s)) = chunkExposure s"
  by (simp add: normalize_outcome normalize_flat_cases
      split: option.splits pvalue.splits prod.splits)

lemma correct_configured:
  assumes "map_of flatPolicy ''flatFieldScale'' = Some (PDouble flatFieldScale)"
    and "map_of flatPolicy ''stretchFactor'' = Some (PDouble stretchFactor)"
    and "map_of flatPolicy ''sigClip'' = Some (PBool sigClip)"
    and "map_of flatPolicy ''sigClipVal'' = Some (PDouble sigClipVal)"
  shows "correct flatPolicy s =
     (let flat = (if nonzero flatFieldScale
                  then mul_scalar (mul_scalar (masterChunkExposure s) (Val stretchFactor))
                         (Val flatFieldScale)
                  else mul_scalar (masterChunkExposure s) (Val stretchFactor))
      in (Next (), s\<lparr>chunkExposure := div_exposure (chunkExposure s) flat,
                      masterChunkExposure := flat\<rparr>))"
  using assms
  by (simp add: correct_def bnd_def getDouble_def getBool_def next_with_def
      masterChunkExposure_mul_def chunkExposure_div_master_def Let_def)

lemma bnd_keeps:
  assumes "\<And>s. K (snd (m s)) = K s" and "\<And>a s. K (snd (f a s)) = K s"
  shows "K (snd (bnd m f s)) = K s"
proof (cases "m s")
  case (Pair out s')
  with assms(1) [of s] have "K s' = K s" by simp
  with Pair assms(2) show ?thesis
    by (cases out) (simp_all add: bnd_def)
qed

lemma getDouble_keeps: "K (snd (getDouble p key s)) = K s"
  by (simp add: policy_lookup_state)

lemma getBool_keeps: "K (snd (getBool p key s)) = K s"
  by (simp add: policy_lookup_state)

lemma correct_metadata:
  "getMetadata (chunkExposure (snd (correct flatPolicy s))) = getMetadata (chunkExposure s)"
proof -
  let ?K = "\<lambda>s :: 'a state. getMetadata (chunkExposure s)"
  have mul: "?K (snd (masterChunkExposure_mul x s)) = ?K s" for x and s :: "'a state"
    by (simp add: masterChunkExposure_mul_def)
  have dv: "?K (snd (chunkExposure_div_master s)) = ?K s" for s :: "'a state"
    by (simp add: chunkExposure_div_master_def div_exposure_def)
  have last: "?K (snd ((if nonzero x
       then bnd (masterChunkExposure_mul x) (\<lambda>_. chunkExposure_div_master)
       else chunkExposure_div_master) s)) = ?K s" for x and s :: "'a state"
    by (simp add: bnd_keeps [where K = ?K] mul dv)
  show ?thesis
    unfolding correct_def
    by (intro bnd_keeps [where K = ?K] getDouble_keeps getBool_keeps mul last)
qed

lemma apply_flat_metadata:
  "getMetadata (chunkExposure (snd (apply_flat string_of_double datasetPolicy flatPolicy s))) =
     (if fst (apply_flat string_of_double datasetPolicy flatPolicy s) = Next ()
      then getMetadata (chunkExposure s) @ [(''ISR_FLATCOR'', StringV ''Complete'')]
      else getMetadata (chunkExposure s))"
proof -
  obtain o1 s1 where n: "normalize string_of_double datasetPolicy s = (o1, s1)"
    by (cases "normalize string_of_double datasetPolicy s")
  obtain o2 s2 where c: "correct flatPolicy s1 = (o2, s2)"
    by (cases "correct flatPolicy s1")
  have m1: "getMetadata (chunkExposure s1) = getMetadata (chunkExposure s)"
    using normalize_chunk [of string_of_double datasetPolicy s] n by simp
  have m2: "getMetadata (chunkExposure s2) = getMetadata (chunkExposure s1)"
    using correct_metadata [of flatPolicy s1] c by simp
  show ?thesis
    by (cases o1; cases o2)
      (simp_all add: apply_flat_def bnd_def n c m1 m2 record_provenance_def addProperty_def)
qed



lemma filter_absent_key:
  "k \<notin> fst ` set md \<Longrightarrow> filter (\<lambda>e. fst e = k) md = []"
  by (induction md) auto

lemma findUnique_absent:
  "k \<notin> fst ` set md \<Longrightarrow> findUnique md k = None"
  by (simp add: findUnique_def filter_absent_key)

lemma findUnique_once:
  assumes "length (filter (\<lambda>e. fst e = k) md) = 1"
  shows "findUnique md k \<noteq> None"
proof -
  from assms obtain e where "filter (\<lambda>e. fst e = k) md = [e]"
    by (cases "filter (\<lambda>e. fst e = k) md") auto
  then show ?thesis by (simp add: findUnique_def)
qed

lemma findUnique_addProperty:
  "k \<notin> fst ` set md \<Longrightarrow> findUnique (md @ [(k, v)]) k = Some v"
  by (simp add: findUnique_def filter_absent_key)

section \<open>The claims\<close>

text \<open>
  C1, as stated: whenever the metadata of the science image contain the \<open>ISR_FLATCOR\<close>
  marker, the call fails with \<open>Runtime\<close> (AlreadyProcessed). It does not when they contain
  it twice: the unique lookup of line 91 then fails as it does for an absent key, the test
  of line 92 finds a null pointer, and the call goes on to line 120.
\<close>

theorem already_processed_counterexample:
  "''ISR_FLATCOR'' \<in> fst ` set (getMetadata ex_done_twice) \<and>
   flatFieldCorrectChunkExposure ex_key_of_double ex_done_twice ex_master ex_isrPolicy
       ex_datasetPolicy
     = (Return (RUInt 1), \<lparr>chunkExposure = ex_done_twice, masterChunkExposure = ex_master\<rparr>) \<and>
   fst (flatFieldCorrectChunkExposure ex_key_of_double ex_done_twice ex_master ex_isrPolicy
       ex_datasetPolicy) \<noteq> Throw Runtime"
  by (simp add: flatFieldCorrectChunkExposure_def bnd_def check_not_run_outcome
      check_size_outcome check_region_outcome getPolicy_def getString_def throw_def next_with_def
      findUnique_def ex_done_twice_def ex_chunk_def ex_master_def ex_isrPolicy_def
      ex_flatPolicy_def)

text \<open>
  C1, amended. If the metadata of the science image contain exactly one entry
  \<open>ISR_FLATCOR\<close>, the call fails with \<open>Runtime\<close> (AlreadyProcessed) and the state after
  the call, both Exposures with their pixels, masks and metadata, is the state before it.
\<close>

theorem already_processed_no_mutation:
  assumes "length (filter (\<lambda>entry. fst entry = ''ISR_FLATCOR'') (getMetadata chunk)) = 1"
  shows "flatFieldCorrectChunkExposure string_of_double chunk master isrPolicy datasetPolicy
           = (Throw Runtime, \<lparr>chunkExposure = chunk, masterChunkExposure = master\<rparr>)"
proof -
  from assms have "findUnique (getMetadata chunk) ''ISR_FLATCOR'' \<noteq> None"
    by (rule findUnique_once)
  then show ?thesis
    by (simp add: flatFieldCorrectChunkExposure_def check_not_run_def bnd_def
        chunkMetadata_findUnique_def throw_def)
qed

theorem already_processed_no_mutation_witness:
  "length (filter (\<lambda>entry. fst entry = ''ISR_FLATCOR'') (getMetadata ex_done)) = 1 \<and>
   flatFieldCorrectChunkExposure ex_key_of_double ex_done ex_master ex_isrPolicy ex_datasetPolicy
     = (Throw Runtime, \<lparr>chunkExposure = ex_done, masterChunkExposure = ex_master\<rparr>)"
proof -
  have h: "length (filter (\<lambda>entry. fst entry = ''ISR_FLATCOR'') (getMetadata ex_done)) = 1"
    by (simp add: ex_done_def)
  from already_processed_no_mutation [OF h] h show ?thesis by simp
qed

text \<open>
  C2, as stated: whenever the column or row counts differ, the call fails with
  \<open>LengthError\<close> (DimensionMismatch). It does not when the science image carries the
  \<open>ISR_FLATCOR\<close> entry: that test comes first, and the call fails with \<open>Runtime\<close>.
\<close>

theorem size_mismatch_counterexample:
  "getCols ex_done \<noteq> getCols ex_wide \<and>
   fst (flatFieldCorrectChunkExposure ex_key_of_double ex_done ex_wide ex_isrPolicy ex_datasetPolicy)
     = Throw Runtime \<and>
   fst (flatFieldCorrectChunkExposure ex_key_of_double ex_done ex_wide ex_isrPolicy ex_datasetPolicy)
     \<noteq> Throw LengthError"
  by (simp add: flatFieldCorrectChunkExposure_def check_not_run_def bnd_def
      chunkMetadata_findUnique_def throw_def ex_done_def ex_wide_def ex_chunk_def findUnique_def)

text \<open>
  C2, amended. If the metadata of the science image contain no entry \<open>ISR_FLATCOR\<close> and the
  column or row counts of the two Exposures differ, the call fails with \<open>LengthError\<close>
  (DimensionMismatch), and both Exposures are as before the call. The outcome is the same for
  all pixel values and all Policies: nothing of them is looked at.
\<close>

theorem size_mismatch:
  assumes "''ISR_FLATCOR'' \<notin> fst ` set (getMetadata chunk)"
    and "getCols chunk \<noteq> getCols master \<or> getRows chunk \<noteq> getRows master"
  shows "flatFieldCorrectChunkExposure string_of_double chunk master isrPolicy datasetPolicy
           = (Throw LengthError, \<lparr>chunkExposure = chunk, masterChunkExposure = master\<rparr>)"
proof -
  from assms(1) have "findUnique (getMetadata chunk) ''ISR_FLATCOR'' = None"
    by (rule findUnique_absent)
  with assms(2) show ?thesis
    by (auto simp: flatFieldCorrectChunkExposure_def check_not_run_def check_size_def bnd_def
        chunkMetadata_findUnique_def throw_def next_with_def)
qed

theorem size_mismatch_witness:
  "''ISR_FLATCOR'' \<notin> fst ` set (getMetadata ex_chunk) \<and>
   getCols ex_chunk \<noteq> getCols ex_wide \<and>
   flatFieldCorrectChunkExposure ex_key_of_double ex_chunk ex_wide ex_isrPolicy ex_datasetPolicy
     = (Throw LengthError, \<lparr>chunkExposure = ex_chunk, masterChunkExposure = ex_wide\<rparr>)"
proof -
  have h1: "''ISR_FLATCOR'' \<notin> fst ` set (getMetadata ex_chunk)"
    by (simp add: ex_chunk_def)
  have h2: "getCols ex_chunk \<noteq> getCols ex_wide \<or> getRows ex_chunk \<noteq> getRows ex_wide"
    by (simp add: ex_chunk_def ex_wide_def)
  have h3: "getCols ex_chunk \<noteq> getCols ex_wide"
    by (simp add: ex_chunk_def ex_wide_def)
  from size_mismatch [OF h1 h2] h1 h3 show ?thesis by simp
qed

text \<open>
  C3. With \<open>chunkType\<close> \<open>amp\<close> and two different integer \<open>AMPID\<close> entries the
  specification wants \<open>RangeError\<close> (RegionMismatch). The source returns the science image's
  AMPID at line 120, before it reads the master's: on the example with AMPID 1 and 2 the call
  returns 1 and throws nothing.
\<close>

theorem amp_mismatch_returns:
  "findUnique (getMetadata ex_chunk) ''AMPID'' = Some (IntV 1) \<and>
   findUnique (getMetadata ex_master_amp2) ''AMPID'' = Some (IntV 2) \<and>
   flatFieldCorrectChunkExposure ex_key_of_double ex_chunk ex_master_amp2 ex_isrPolicy ex_datasetPolicy
     = (Return (RUInt 1), \<lparr>chunkExposure = ex_chunk, masterChunkExposure = ex_master_amp2\<rparr>)"
  by (simp add: flatFieldCorrectChunkExposure_def bnd_def check_not_run_outcome
      check_size_outcome check_region_outcome getPolicy_def getString_def throw_def next_with_def
      findUnique_def ex_chunk_def ex_master_def ex_master_amp2_def ex_isrPolicy_def ex_flatPolicy_def)

text \<open>
  C4. With two different \<open>FILTER\<close> entries the specification wants \<open>DomainError\<close>
  (FilterMismatch). On the example with FILTER 2 and 3 the call returns at line 120 before
  the filter is looked at; and the filter check on its own, from the same state, ends at
  line 198, where the master's integer FILTER is cast to a string: the comparison of line 204
  is not reached.
\<close>

theorem filter_mismatch_not_reported:
  "findUnique (getMetadata ex_chunk) ''FILTER'' = Some (IntV 2) \<and>
   findUnique (getMetadata ex_master_filter3) ''FILTER'' = Some (IntV 3) \<and>
   flatFieldCorrectChunkExposure ex_key_of_double ex_chunk ex_master_filter3 ex_isrPolicy ex_datasetPolicy
     = (Return (RUInt 1), \<lparr>chunkExposure = ex_chunk, masterChunkExposure = ex_master_filter3\<rparr>) \<and>
   check_filter \<lparr>chunkExposure = ex_chunk, masterChunkExposure = ex_master_filter3\<rparr>
     = (Throw BadAnyCast, \<lparr>chunkExposure = ex_chunk, masterChunkExposure = ex_master_filter3\<rparr>)"
  by (simp add: flatFieldCorrectChunkExposure_def bnd_def check_not_run_outcome
      check_size_outcome check_region_outcome check_filter_outcome
      getPolicy_def getString_def throw_def next_with_def
      findUnique_def isalpha_def ex_chunk_def ex_master_def ex_master_filter3_def
      ex_isrPolicy_def ex_flatPolicy_def)

text \<open>
  C5. The specification wants \<open>normalizeKey\<close> read as a string and looked up in the master
  flat's metadata. The source reads it with \<^verbatim>\<open>getDouble\<close> (line 216) and looks it up in
  the science image's metadata (line 217). With a string under \<open>normalizeKey\<close> and the
  marker on the master flat, the stage fails in the Policy lookup; with a number under
  \<open>normalizeKey\<close>, a master flat that carries the marker is not skipped when the science
  image does not carry it: the normalization of lines 230 to 261 is run on it (and reads
  outside the image); and a master flat without the marker is left as it is when the science
  image carries it.
\<close>

theorem normalize_reads_chunk_metadata:
  "normalize ex_key_of_double ex_datasetPolicy
       \<lparr>chunkExposure = ex_chunk, masterChunkExposure = ex_master_normalized\<rparr>
     = (Throw ConfigNotFound, \<lparr>chunkExposure = ex_chunk, masterChunkExposure = ex_master_normalized\<rparr>) \<and>
   findUnique (getMetadata ex_master_normalized) (ex_key_of_double (Fin 1)) \<noteq> None \<and>
   normalize ex_key_of_double ex_datasetPolicy_double
       \<lparr>chunkExposure = ex_chunk, masterChunkExposure = ex_master_normalized\<rparr>
     = normalize_flat \<lparr>chunkExposure = ex_chunk, masterChunkExposure = ex_master_normalized\<rparr> \<and>
   normalize ex_key_of_double ex_datasetPolicy_double
       \<lparr>chunkExposure = ex_chunk, masterChunkExposure = ex_master_normalized\<rparr>
     = (Undefined, \<lparr>chunkExposure = ex_chunk, masterChunkExposure = ex_master_normalized\<rparr>) \<and>
   findUnique (getMetadata ex_master) (ex_key_of_double (Fin 1)) = None \<and>
   normalize ex_key_of_double ex_datasetPolicy_double
       \<lparr>chunkExposure = ex_chunk_normalized, masterChunkExposure = ex_master\<rparr>
     = (Next (), \<lparr>chunkExposure = ex_chunk_normalized, masterChunkExposure = ex_master\<rparr>)"
proof -
  let ?s = "\<lparr>chunkExposure = ex_chunk, masterChunkExposure = ex_master_normalized\<rparr>"
  have "0 < getRows (masterChunkExposure ?s)" and "0 < getCols (masterChunkExposure ?s)"
    by (simp_all add: ex_master_normalized_def ex_master_def)
  then have "normalize_flat ?s = (Undefined, ?s)"
    by (rule normalize_flat_outside)
  then show ?thesis
    by (simp add: normalize_outcome ex_datasetPolicy_def ex_datasetPolicy_double_def
        ex_key_of_double_def findUnique_def ex_chunk_def ex_chunk_normalized_def
        ex_master_normalized_def ex_master_def)
qed

text \<open>
  C6. The specification wants the normalization to divide every sample by the mean and leave
  a flat of mean 1. In the source the second pass starts from the accessor that the first
  pass left at the row after the last (the defect of C10): on the master flat of the example
  it reads the positions of rows 2 and 3, all of them outside the image, before the division
  of line 261, and the behaviour of the function is undefined from there.
\<close>

theorem normalize_reads_outside_image:
  "getRows ex_master = 2 \<and> getCols ex_master = 2 \<and>
   second_reads ex_master = [(2, 0), (2, 1), (3, 0), (3, 1)] \<and>
   map (deref ex_master) (second_reads ex_master) = [None, None, None, None] \<and>
   normalize_flat \<lparr>chunkExposure = ex_chunk, masterChunkExposure = ex_master\<rparr>
     = (Undefined, \<lparr>chunkExposure = ex_chunk, masterChunkExposure = ex_master\<rparr>)"
proof -
  let ?s = "\<lparr>chunkExposure = ex_chunk, masterChunkExposure = ex_master\<rparr>"
  have r: "getRows ex_master = 2" "getCols ex_master = 2"
    by (simp_all add: ex_master_def)
  have "0 < getRows (masterChunkExposure ?s)" and "0 < getCols (masterChunkExposure ?s)"
    by (simp_all add: r)
  then have u: "normalize_flat ?s = (Undefined, ?s)"
    by (rule normalize_flat_outside)
  have two: "[0..<2] = [0, 1]"
    by (simp add: numeral_2_eq_2)
  have p: "second_reads ex_master = [(2, 0), (2, 1), (3, 0), (3, 1)]"
    by (simp add: second_reads_positions r positions_def two)
  show ?thesis
    by (simp add: u p r)
qed




text \<open>
  C8, as stated: for every input that reaches the correction, the master flat is scaled and
  the science image is then divided by it. When \<open>sigClip\<close> is not configured, the lookup of
  line 270 fails after the master flat has been multiplied by \<open>stretchFactor\<close> (line 269),
  and the science image is not divided.
\<close>

theorem correct_without_sigClip_counterexample:
  "map_of ex_flatPolicy_no_sigClip ''stretchFactor'' = Some (PDouble (Fin 1)) \<and>
   map_of ex_flatPolicy_no_sigClip ''sigClip'' = None \<and>
   correct ex_flatPolicy_no_sigClip \<lparr>chunkExposure = ex_chunk, masterChunkExposure = ex_flat_unit\<rparr>
     = (Throw ConfigNotFound,
        \<lparr>chunkExposure = ex_chunk,
         masterChunkExposure = mul_scalar ex_flat_unit (Val (Fin 1))\<rparr>)"
  by (simp add: correct_def bnd_def getDouble_def getBool_def next_with_def throw_def
      masterChunkExposure_mul_def ex_flatPolicy_no_sigClip_def)

text \<open>
  C8, amended. When the four parameters \<open>flatFieldScale\<close>, \<open>stretchFactor\<close>, \<open>sigClip\<close>
  and \<open>sigClipVal\<close> are configured, the correction goes on to the next statement with the
  master flat multiplied by \<open>stretchFactor\<close>, and by \<open>flatFieldScale\<close> too if and only if
  that is not zero, and with each sample of the science image divided by the sample of this
  master flat at the same place. A science image of 1000.0 everywhere, a master flat of 1.0
  everywhere, \<open>stretchFactor\<close> 1.0 and \<open>flatFieldScale\<close> 0 give \<open>1000.0 / (1.0 * 1.0)\<close>
  everywhere, which is 1000.0.
\<close>

theorem correct_divides:
  assumes "map_of flatPolicy ''flatFieldScale'' = Some (PDouble flatFieldScale)"
    and "map_of flatPolicy ''stretchFactor'' = Some (PDouble stretchFactor)"
    and "map_of flatPolicy ''sigClip'' = Some (PBool sigClip)"
    and "map_of flatPolicy ''sigClipVal'' = Some (PDouble sigClipVal)"
  shows "fst (correct flatPolicy s) = Next () \<and>
         masterChunkExposure (snd (correct flatPolicy s))
           = (if nonzero flatFieldScale
              then mul_scalar (mul_scalar (masterChunkExposure s) (Val stretchFactor))
                     (Val flatFieldScale)
              else mul_scalar (masterChunkExposure s) (Val stretchFactor)) \<and>
         chunkExposure (snd (correct flatPolicy s))
           = (chunkExposure s)
               \<lparr>img := map2 Div (img (chunkExposure s))
                          (img (masterChunkExposure (snd (correct flatPolicy s))))\<rparr> \<and>
         (img (chunkExposure s) = replicate n (Val (Fin 1000)) \<and>
          img (masterChunkExposure s) = replicate n (Val (Fin 1)) \<and>
          stretchFactor = Fin 1 \<and> flatFieldScale = Fin 0 \<longrightarrow>
            img (chunkExposure (snd (correct flatPolicy s)))
              = replicate n (Div (Val (Fin 1000)) (Mul (Val (Fin 1)) (Val (Fin 1)))) \<and>
            known_value (Div (Val (Fin 1000)) (Mul (Val (Fin 1)) (Val (Fin 1))))
              = Some (Fin 1000))"
proof -
  have "map2 Div (replicate n (Val (Fin 1000)))
          (map (\<lambda>p. Mul p (Val (Fin 1))) (replicate n (Val (Fin 1))))
        = replicate n (Div (Val (Fin 1000)) (Mul (Val (Fin 1)) (Val (Fin 1))))"
    by simp
  then show ?thesis
    by (simp add: correct_configured [OF assms] Let_def div_exposure_def mul_scalar_def
        nonzero_def)
qed

theorem correct_divides_witness:
  "map_of ex_flatPolicy ''flatFieldScale'' = Some (PDouble (Fin 0)) \<and>
   map_of ex_flatPolicy ''stretchFactor'' = Some (PDouble (Fin 1)) \<and>
   map_of ex_flatPolicy ''sigClip'' = Some (PBool False) \<and>
   map_of ex_flatPolicy ''sigClipVal'' = Some (PDouble (Fin 0)) \<and>
   img ex_chunk = replicate 4 (Val (Fin 1000)) \<and> img ex_flat_unit = replicate 4 (Val (Fin 1)) \<and>
   fst (correct ex_flatPolicy \<lparr>chunkExposure = ex_chunk, masterChunkExposure = ex_flat_unit\<rparr>) = Next () \<and>
   img (chunkExposure
     (snd (correct ex_flatPolicy \<lparr>chunkExposure = ex_chunk, masterChunkExposure = ex_flat_unit\<rparr>)))
     = replicate 4 (Div (Val (Fin 1000)) (Mul (Val (Fin 1)) (Val (Fin 1)))) \<and>
   known_value (Div (Val (Fin 1000)) (Mul (Val (Fin 1)) (Val (Fin 1)))) = Some (Fin 1000)"
proof -
  have h1: "map_of ex_flatPolicy ''flatFieldScale'' = Some (PDouble (Fin 0))"
    and h2: "map_of ex_flatPolicy ''stretchFactor'' = Some (PDouble (Fin 1))"
    and h3: "map_of ex_flatPolicy ''sigClip'' = Some (PBool False)"
    and h4: "map_of ex_flatPolicy ''sigClipVal'' = Some (PDouble (Fin 0))"
    by (simp_all add: ex_flatPolicy_def)
  have h5: "img ex_chunk = replicate 4 (Val (Fin 1000))"
    and h6: "img ex_flat_unit = replicate 4 (Val (Fin 1))"
    by (simp_all add: ex_chunk_def ex_flat_unit_def numeral_eq_Suc)
  let ?s = "\<lparr>chunkExposure = ex_chunk, masterChunkExposure = ex_flat_unit\<rparr>"
  have h7: "img (chunkExposure ?s) = replicate 4 (Val (Fin 1000)) \<and>
      img (masterChunkExposure ?s) = replicate 4 (Val (Fin 1)) \<and> Fin 1 = Fin 1 \<and> Fin 0 = Fin 0"
    using h5 h6 by simp
  note t = correct_divides [OF h1 h2 h3 h4, of ?s 4]
  from t have a: "fst (correct ex_flatPolicy ?s) = Next ()"
    by (rule conjunct1)
  from t h7 have b: "img (chunkExposure (snd (correct ex_flatPolicy ?s)))
        = replicate 4 (Div (Val (Fin 1000)) (Mul (Val (Fin 1)) (Val (Fin 1)))) \<and>
      known_value (Div (Val (Fin 1000)) (Mul (Val (Fin 1)) (Val (Fin 1)))) = Some (Fin 1000)"
    by blast
  from a b h1 h2 h3 h4 h5 h6 show ?thesis by simp
qed

text \<open>
  C9. The specification wants the entry \<open>ISR_FLATCOR\<close> = \<open>Complete\<close> written by every call
  that corrects the science image, as on its end-to-end example. On that example the call
  returns the science image's AMPID at line 120 (the defect of C3): the correction and line
  285 are not reached, and the metadata of the science image have no \<open>ISR_FLATCOR\<close> entry
  after the call.
\<close>

theorem end_to_end_example_unmarked:
  "flatFieldCorrectChunkExposure ex_key_of_double ex_chunk4 ex_master4 ex_isrPolicy ex_datasetPolicy
     = (Return (RUInt 1), \<lparr>chunkExposure = ex_chunk4, masterChunkExposure = ex_master4\<rparr>) \<and>
   findUnique
     (getMetadata (chunkExposure
        (snd (flatFieldCorrectChunkExposure ex_key_of_double ex_chunk4 ex_master4 ex_isrPolicy
           ex_datasetPolicy))))
     ''ISR_FLATCOR'' = None \<and>
   img (chunkExposure
        (snd (flatFieldCorrectChunkExposure ex_key_of_double ex_chunk4 ex_master4 ex_isrPolicy
           ex_datasetPolicy)))
     = replicate 16 (Val (Fin 1000))"
proof -
  have "flatFieldCorrectChunkExposure ex_key_of_double ex_chunk4 ex_master4 ex_isrPolicy
          ex_datasetPolicy
      = (Return (RUInt 1), \<lparr>chunkExposure = ex_chunk4, masterChunkExposure = ex_master4\<rparr>)"
    by (simp add: flatFieldCorrectChunkExposure_def bnd_def check_not_run_outcome
        check_size_outcome check_region_outcome getPolicy_def getString_def throw_def
        next_with_def findUnique_def ex_chunk4_def ex_master4_def ex_isrPolicy_def
        ex_flatPolicy_def)
  then show ?thesis
    by (simp add: findUnique_def ex_chunk4_def)
qed

text \<open>
  C10, as stated: for every master flat the \<open>\<sigma>\<close> computed is not the standard deviation of
  its samples. For a flat with no rows the second pass reads nothing, and \<open>\<sigma>\<close> is what
  the formula of the specification gives on the samples of the image.
\<close>

theorem sigma_counterexample:
  "getRows ex_empty = 0 \<and> second_reads ex_empty = [] \<and>
   snd (snd (flat_statistics ex_empty)) = Some (spec_sigma (img ex_empty))"
proof -
  have r: "getRows ex_empty = 0" "getCols ex_empty = 0" "img ex_empty = []"
    by (simp_all add: ex_empty_def)
  have z: "getRows ex_empty = 0 \<or> getCols ex_empty = 0"
    by (simp add: r)
  have "second_reads ex_empty = []"
    by (simp add: second_reads_positions r positions_0)
  then show ?thesis
    by (simp add: flat_statistics_no_pixel [OF z] spec_sigma_def spec_mean_def r)
qed

text \<open>
  C10, amended. For every master flat with at least one row and one column: the accessor
  is at row \<open>getRows\<close> after the first pass, which has read the positions of the image;
  the second pass reads the \<open>getRows\<close> rows from there on, as many positions as the image
  has, every one of them outside the image and none of them read by the first pass; the
  \<open>\<sigma>\<close> computed is not determined by the image, and is not the standard deviation of its
  samples.
\<close>

theorem second_pass_outside_image:
  assumes "0 < getRows m" and "0 < getCols m"
  shows "fst (mean_pass m origin) = (getRows m, 0) \<and>
         set (first_reads m) = {(r, c). r < getRows m \<and> c < getCols m} \<and>
         set (second_reads m)
           = {(r, c). getRows m \<le> r \<and> r < 2 * getRows m \<and> c < getCols m} \<and>
         length (second_reads m) = getRows m * getCols m \<and>
         (\<forall>a \<in> set (second_reads m). deref m a = None \<and> a \<notin> set (first_reads m)) \<and>
         snd (snd (flat_statistics m)) = None \<and>
         snd (snd (flat_statistics m)) \<noteq> Some (spec_sigma (img m))"
proof -
  have first: "set (first_reads m) = {(r, c). r < getRows m \<and> c < getCols m}"
    by (simp add: first_reads_positions set_positions)
  have second: "set (second_reads m)
      = {(r, c). getRows m \<le> r \<and> r < 2 * getRows m \<and> c < getCols m}"
    by (simp add: second_reads_positions set_positions mult_2)
  have outside: "deref m a = None \<and> a \<notin> set (first_reads m)" if "a \<in> set (second_reads m)" for a
  proof -
    obtain r c where a: "a = (r, c)" by (cases a)
    with that second have "getRows m \<le> r" by simp
    then show ?thesis by (simp add: a first)
  qed
  have sigma: "snd (snd (flat_statistics m)) = None"
    using assms by (rule flat_statistics_sigma)
  show ?thesis
    using first second outside sigma
    by (simp add: mean_pass_end second_reads_positions length_positions)
qed

theorem second_pass_outside_image_witness:
  "0 < getRows ex_master \<and> 0 < getCols ex_master \<and>
   fst (mean_pass ex_master origin) = (2, 0) \<and>
   (2, 0) \<in> set (second_reads ex_master) \<and>
   deref ex_master (2, 0) = None \<and>
   (2, 0) \<notin> set (first_reads ex_master) \<and>
   snd (snd (flat_statistics ex_master)) = None"
proof -
  have h1: "0 < getRows ex_master" and h2: "0 < getCols ex_master"
    by (simp_all add: ex_master_def)
  have r: "getRows ex_master = 2" "getCols ex_master = 2"
    by (simp_all add: ex_master_def)
  note t = second_pass_outside_image [OF h1 h2]
  from t have a: "fst (mean_pass ex_master origin) = (2, 0)"
    by (simp add: r)
  from t have "set (second_reads ex_master)
      = {(r, c). getRows ex_master \<le> r \<and> r < 2 * getRows ex_master \<and> c < getCols ex_master}"
    by blast
  then have b: "(2, 0) \<in> set (second_reads ex_master)"
    by (simp add: r)
  from t b have c: "deref ex_master (2, 0) = None \<and> (2, 0) \<notin> set (first_reads ex_master)"
    by blast
  from t have d: "snd (snd (flat_statistics ex_master)) = None"
    by blast
  from h1 h2 a b c d show ?thesis by simp
qed

end
